theory Spec2Isabelle
  imports Complex_Main
begin

section \<open>Data model of BeePolytopeGuard.hpp\<close>

text \<open>
  The header works on C++ \<open>double\<close>. The first embedding reads every \<open>double\<close>
  as a real number and every arithmetic operation as the exact one; it serves the
  properties that are stated on the values the code computes (the risk index,
  the region, the duty scale). The one operation whose exact reading does not
  exist, a division whose denominator is zero, is kept visible (\<open>ddiv\<close> below)
  instead of taking HOL's \<open>x / 0 = 0\<close>.

  What \<open>classifyRegion\<close> returns for a given point depends on how doubles add,
  multiply and compare (rounding, NaN). For that property the classifier is
  embedded a second time, further down, with the arithmetic as a parameter.
\<close>

record State5D =
  pm25_ug_m3 :: real
  nox_ppb :: real
  o3_ppb :: real
  temp_C :: real
  floral_m2_ha :: real

record BeeHazardParams =
  lc50_pm25_ug_m3 :: real
  lc50_nox_ppb :: real
  lc50_o3_ppb :: real
  lc50_voc_ug_m3 :: real
  w_pm25 :: real
  w_nox :: real
  w_o3 :: real
  w_voc :: real
  pm25_eq_viability_ug_m3 :: real

record BeeHazardState =
  r_bee :: real
  pm25_eq :: real
  within_viability :: bool

text \<open>\<open>std::array<double, 5>\<close>: exactly five components, read by index.\<close>

datatype array5 = Array5 real real real real real

definition at5 :: "array5 \<Rightarrow> nat \<Rightarrow> real" where
  "at5 a j = (case a of Array5 a0 a1 a2 a3 a4 \<Rightarrow> [a0, a1, a2, a3, a4] ! j)"

text \<open>
  \<open>Polytope\<close> holds two independent vectors, the rows \<open>A\<close> and the bounds \<open>b\<close>;
  nothing in the header forces them to have the same length.
\<close>

record Polytope =
  A :: "array5 list"
  b :: "real list"

datatype RegionClass = FORAGE_SAFE | RETREAT_ONLY | FORBIDDEN

text \<open>
  \<open>duty_scale\<close> is \<open>Some d\<close> when the code computes the real number \<open>d\<close>, and
  \<open>None\<close> when it comes out of a division by a zero hard limit: IEEE arithmetic
  then yields an infinity (or 0, after the clamp, for a negative zero), which
  no real number represents.
\<close>

record BeeActuationLimits =
  region :: RegionClass
  duty_scale :: "real option"
  allow_foraging :: bool

text \<open>The private members of the class (the trailing underscores are dropped).\<close>

record BeePolytopeGuard =
  params :: BeeHazardParams
  foragePoly :: Polytope
  retreatPoly :: Polytope
  rBeeSoftLimit :: real
  rBeeHardLimit :: real

section \<open>computeHazard\<close>

text \<open>The four local constants \<open>r_pm\<close>, \<open>r_nox\<close>, \<open>r_o3\<close>, \<open>r_voc\<close> of \<open>computeHazard\<close>.\<close>

definition r_pm :: "BeePolytopeGuard \<Rightarrow> State5D \<Rightarrow> real" where
  "r_pm g s =
     (if lc50_pm25_ug_m3 (params g) > 0
      then pm25_ug_m3 s / lc50_pm25_ug_m3 (params g) else 0)"

definition r_nox :: "BeePolytopeGuard \<Rightarrow> State5D \<Rightarrow> real" where
  "r_nox g s =
     (if lc50_nox_ppb (params g) > 0
      then nox_ppb s / lc50_nox_ppb (params g) else 0)"

definition r_o3 :: "BeePolytopeGuard \<Rightarrow> State5D \<Rightarrow> real" where
  "r_o3 g s =
     (if lc50_o3_ppb (params g) > 0
      then o3_ppb s / lc50_o3_ppb (params g) else 0)"

definition r_voc :: "BeePolytopeGuard \<Rightarrow> real \<Rightarrow> real" where
  "r_voc g voc_ug_m3 =
     (if lc50_voc_ug_m3 (params g) > 0
      then voc_ug_m3 / lc50_voc_ug_m3 (params g) else 0)"

definition computeHazard :: "BeePolytopeGuard \<Rightarrow> State5D \<Rightarrow> real \<Rightarrow> BeeHazardState" where
  "computeHazard g s voc_ug_m3 =
     (let h_r_bee =
            w_pm25 (params g) * r_pm g s +
            w_nox (params g) * r_nox g s +
            w_o3 (params g) * r_o3 g s +
            w_voc (params g) * r_voc g voc_ug_m3;
          h_pm25_eq =
            pm25_ug_m3 s +
            w_nox (params g) * nox_ppb s +
            w_o3 (params g) * o3_ppb s +
            w_voc (params g) * voc_ug_m3
      in \<lparr> r_bee = h_r_bee,
           pm25_eq = h_pm25_eq,
           within_viability =
             (h_pm25_eq \<le> pm25_eq_viability_ug_m3 (params g) \<and>
              h_r_bee \<le> rBeeSoftLimit g) \<rparr>)"

section \<open>inPolytope and classifyRegion\<close>

text \<open>
  \<open>P.b[i]\<close> is an unchecked \<open>std::vector\<close> read: past the end of \<open>b\<close> the
  behaviour of the C++ program is undefined, which the model reports as a fault.
  \<open>P.A[i]\<close> is always in range, because the loop runs over \<open>i < P.A.size()\<close>.
\<close>

datatype fault = IndexOutOfRange

text \<open>The inner loop: \<open>dot\<close> starts at 0 and accumulates over \<open>j = 0, ..., 4\<close>.\<close>

definition dot5 :: "array5 \<Rightarrow> array5 \<Rightarrow> real" where
  "dot5 row x = fold (\<lambda>j dot. dot + at5 row j * at5 x j) [0..<5] 0"

text \<open>The literal \<open>1e-9\<close>.\<close>

definition tol :: real where
  "tol = 1 / 10 ^ 9"

text \<open>The outer loop over the row indices still to visit.\<close>

fun inPolytope_loop :: "Polytope \<Rightarrow> array5 \<Rightarrow> nat list \<Rightarrow> fault + bool" where
  "inPolytope_loop P x [] = Inr True"
| "inPolytope_loop P x (i # is) =
     (if i < length (b P)
      then (if dot5 (A P ! i) x > b P ! i + tol
            then Inr False
            else inPolytope_loop P x is)
      else Inl IndexOutOfRange)"

definition inPolytope :: "Polytope \<Rightarrow> State5D \<Rightarrow> fault + bool" where
  "inPolytope P s =
     (let x = Array5 (pm25_ug_m3 s) (nox_ppb s) (o3_ppb s) (temp_C s) (floral_m2_ha s);
          m = length (A P)
      in inPolytope_loop P x [0..<m])"

definition classifyRegion :: "BeePolytopeGuard \<Rightarrow> State5D \<Rightarrow> fault + RegionClass" where
  "classifyRegion g s =
     (case inPolytope (foragePoly g) s of
        Inl e \<Rightarrow> Inl e
      | Inr inForage \<Rightarrow>
          if inForage then Inr FORAGE_SAFE
          else (case inPolytope (retreatPoly g) s of
                  Inl e \<Rightarrow> Inl e
                | Inr inRetreat \<Rightarrow>
                    if inRetreat then Inr RETREAT_ONLY
                    else Inr FORBIDDEN))"

section \<open>computeActuation\<close>

definition ddiv :: "real \<Rightarrow> real \<Rightarrow> real option" where
  "ddiv x y = (if y = 0 then None else Some (x / y))"

definition computeActuation ::
  "BeePolytopeGuard \<Rightarrow> State5D \<Rightarrow> real \<Rightarrow> fault + BeeActuationLimits" where
  "computeActuation g s voc_ug_m3 =
     (let hz = computeHazard g s voc_ug_m3
      in case classifyRegion g s of
           Inl e \<Rightarrow> Inl e
         | Inr rc \<Rightarrow>
             if rc = FORBIDDEN \<or> r_bee hz \<ge> rBeeHardLimit g
             then Inr \<lparr> region = rc, duty_scale = Some 0, allow_foraging = False \<rparr>
             else if rc = RETREAT_ONLY \<or> r_bee hz > rBeeSoftLimit g
             then (let alpha =
                         map_option (\<lambda>q. max 0 (1 - q))
                           (ddiv (r_bee hz) (rBeeHardLimit g))
                   in Inr \<lparr> region = rc,
                            duty_scale = map_option (\<lambda>a. a * 0.5) alpha,
                            allow_foraging = False \<rparr>)
             else Inr \<lparr> region = rc, duty_scale = Some 1, allow_foraging = True \<rparr>)"

section \<open>Well-formed polytopes\<close>

text \<open>Every row has a bound: the shape \<open>A: m x 5, b: m\<close> the header documents
  guarantees it, and it is all the loop needs.\<close>

definition wf_polytope :: "Polytope \<Rightarrow> bool" where
  "wf_polytope P = (length (A P) \<le> length (b P))"

section \<open>inPolytope and classifyRegion over a parametric arithmetic\<close>

text \<open>
  The same two functions, with the type \<open>'d\<close> of a \<open>double\<close> and its operations
  left open: the literals \<open>0.0\<close> and \<open>1e-9\<close>, \<open>+\<close>, \<open>*\<close>, and the comparisons \<open>>\<close>
  (the one the code uses) and \<open>\<le>\<close> (the one the specification uses). Nothing is
  assumed of them, so what is proved for every arithmetic holds for IEEE
  binary64 with its rounding and its NaN.
\<close>

record 'd arith =
  lit_zero :: 'd
  lit_tol :: 'd
  add_op :: "'d \<Rightarrow> 'd \<Rightarrow> 'd"
  mul_op :: "'d \<Rightarrow> 'd \<Rightarrow> 'd"
  gt_op :: "'d \<Rightarrow> 'd \<Rightarrow> bool"
  le_op :: "'d \<Rightarrow> 'd \<Rightarrow> bool"

datatype 'd array5_d = Array5_d 'd 'd 'd 'd 'd

definition at5_d :: "'d array5_d \<Rightarrow> nat \<Rightarrow> 'd" where
  "at5_d a j = (case a of Array5_d a0 a1 a2 a3 a4 \<Rightarrow> [a0, a1, a2, a3, a4] ! j)"

record 'd State5D_d =
  pm25_ug_m3_d :: 'd
  nox_ppb_d :: 'd
  o3_ppb_d :: 'd
  temp_C_d :: 'd
  floral_m2_ha_d :: 'd

record 'd Polytope_d =
  A_d :: "'d array5_d list"
  b_d :: "'d list"

text \<open>The two members of the class that \<open>classifyRegion\<close> reads.\<close>

record 'd BeePolytopeGuard_d =
  foragePoly_d :: "'d Polytope_d"
  retreatPoly_d :: "'d Polytope_d"

definition dot5_d :: "'d arith \<Rightarrow> 'd array5_d \<Rightarrow> 'd array5_d \<Rightarrow> 'd" where
  "dot5_d ar row x =
     fold (\<lambda>j dot. add_op ar dot (mul_op ar (at5_d row j) (at5_d x j))) [0..<5]
       (lit_zero ar)"

text \<open>The local array \<open>x\<close> of \<open>inPolytope\<close>.\<close>

definition point_d :: "'d State5D_d \<Rightarrow> 'd array5_d" where
  "point_d s =
     Array5_d (pm25_ug_m3_d s) (nox_ppb_d s) (o3_ppb_d s) (temp_C_d s) (floral_m2_ha_d s)"

fun inPolytope_loop_d ::
  "'d arith \<Rightarrow> 'd Polytope_d \<Rightarrow> 'd array5_d \<Rightarrow> nat list \<Rightarrow> fault + bool" where
  "inPolytope_loop_d ar P x [] = Inr True"
| "inPolytope_loop_d ar P x (i # is) =
     (if i < length (b_d P)
      then (if gt_op ar (dot5_d ar (A_d P ! i) x) (add_op ar (b_d P ! i) (lit_tol ar))
            then Inr False
            else inPolytope_loop_d ar P x is)
      else Inl IndexOutOfRange)"

definition inPolytope_d :: "'d arith \<Rightarrow> 'd Polytope_d \<Rightarrow> 'd State5D_d \<Rightarrow> fault + bool" where
  "inPolytope_d ar P s =
     (let x = point_d s;
          m = length (A_d P)
      in inPolytope_loop_d ar P x [0..<m])"

definition classifyRegion_d ::
  "'d arith \<Rightarrow> 'd BeePolytopeGuard_d \<Rightarrow> 'd State5D_d \<Rightarrow> fault + RegionClass" where
  "classifyRegion_d ar g s =
     (case inPolytope_d ar (foragePoly_d g) s of
        Inl e \<Rightarrow> Inl e
      | Inr inForage \<Rightarrow>
          if inForage then Inr FORAGE_SAFE
          else (case inPolytope_d ar (retreatPoly_d g) s of
                  Inl e \<Rightarrow> Inl e
                | Inr inRetreat \<Rightarrow>
                    if inRetreat then Inr RETREAT_ONLY
                    else Inr FORBIDDEN))"


subsection \<open>Membership, as the specification words it and as the code tests it\<close>

text \<open>
  The specification's membership test, in its own words: a point satisfies a
  polytope iff for every half-space row \<open>i\<close>, \<open>row_i \<cdot> x \<le> bound_i + \<epsilon>\<close>, with
  \<open>\<epsilon> = 1e-9\<close>. The dot product is the plain sum of the five products.
\<close>

definition spec_dot :: "'d arith \<Rightarrow> 'd array5_d \<Rightarrow> 'd array5_d \<Rightarrow> 'd" where
  "spec_dot ar row x =
     add_op ar
       (add_op ar
          (add_op ar
             (add_op ar (mul_op ar (at5_d row 0) (at5_d x 0))
                        (mul_op ar (at5_d row 1) (at5_d x 1)))
             (mul_op ar (at5_d row 2) (at5_d x 2)))
          (mul_op ar (at5_d row 3) (at5_d x 3)))
       (mul_op ar (at5_d row 4) (at5_d x 4))"

definition spec_member :: "'d arith \<Rightarrow> 'd Polytope_d \<Rightarrow> 'd State5D_d \<Rightarrow> bool" where
  "spec_member ar P s =
     (\<forall>i<length (A_d P).
        le_op ar (spec_dot ar (A_d P ! i) (point_d s)) (add_op ar (b_d P ! i) (lit_tol ar)))"

text \<open>
  What the code tests: row \<open>i\<close> is violated when the computed dot product
  compares greater than the computed \<open>bound_i + 1e-9\<close>, and a point passes a
  polytope when it violates none of its rows.
\<close>

definition row_violated :: "'d arith \<Rightarrow> 'd Polytope_d \<Rightarrow> 'd State5D_d \<Rightarrow> nat \<Rightarrow> bool" where
  "row_violated ar P s i =
     gt_op ar (dot5_d ar (A_d P ! i) (point_d s)) (add_op ar (b_d P ! i) (lit_tol ar))"

definition passes :: "'d arith \<Rightarrow> 'd Polytope_d \<Rightarrow> 'd State5D_d \<Rightarrow> bool" where
  "passes ar P s = (\<forall>i<length (A_d P). \<not> row_violated ar P s i)"

subsection \<open>Two arithmetics\<close>

text \<open>
  Exact real arithmetic, which gives back the first embedding, and real
  arithmetic extended with NaN the way IEEE 754 has it: an operation with a NaN
  operand gives NaN, and a comparison with a NaN operand is false.
\<close>

definition exact :: "real arith" where
  "exact =
     \<lparr> lit_zero = 0, lit_tol = 1 / 10 ^ 9, add_op = (+), mul_op = (*),
       gt_op = (\<lambda>x y. x > y), le_op = (\<le>) \<rparr>"

datatype dbl = Num real | NaN

fun dadd :: "dbl \<Rightarrow> dbl \<Rightarrow> dbl" where
  "dadd (Num x) (Num y) = Num (x + y)"
| "dadd _ _ = NaN"

fun dmul :: "dbl \<Rightarrow> dbl \<Rightarrow> dbl" where
  "dmul (Num x) (Num y) = Num (x * y)"
| "dmul _ _ = NaN"

fun dgt :: "dbl \<Rightarrow> dbl \<Rightarrow> bool" where
  "dgt (Num x) (Num y) = (x > y)"
| "dgt _ _ = False"

fun dle :: "dbl \<Rightarrow> dbl \<Rightarrow> bool" where
  "dle (Num x) (Num y) = (x \<le> y)"
| "dle _ _ = False"

definition with_nan :: "dbl arith" where
  "with_nan =
     \<lparr> lit_zero = Num 0, lit_tol = Num (1 / 10 ^ 9), add_op = dadd, mul_op = dmul,
       gt_op = dgt, le_op = dle \<rparr>"

text \<open>The first embedding's values, carried into the parametric one.\<close>

definition array5_d_of :: "array5 \<Rightarrow> real array5_d" where
  "array5_d_of a = (case a of Array5 a0 a1 a2 a3 a4 \<Rightarrow> Array5_d a0 a1 a2 a3 a4)"

definition State5D_d_of :: "State5D \<Rightarrow> real State5D_d" where
  "State5D_d_of s =
     \<lparr> pm25_ug_m3_d = pm25_ug_m3 s, nox_ppb_d = nox_ppb s, o3_ppb_d = o3_ppb s,
       temp_C_d = temp_C s, floral_m2_ha_d = floral_m2_ha s \<rparr>"

definition Polytope_d_of :: "Polytope \<Rightarrow> real Polytope_d" where
  "Polytope_d_of P = \<lparr> A_d = map array5_d_of (A P), b_d = b P \<rparr>"

definition BeePolytopeGuard_d_of :: "BeePolytopeGuard \<Rightarrow> real BeePolytopeGuard_d" where
  "BeePolytopeGuard_d_of g =
     \<lparr> foragePoly_d = Polytope_d_of (foragePoly g),
       retreatPoly_d = Polytope_d_of (retreatPoly g) \<rparr>"

section \<open>A concrete configuration\<close>

text \<open>
  The thresholds, weights and limits of the specification's end-to-end scenario,
  with the two polytopes left open, and a one-row polytope \<open>pm25 \<le> u\<close>.
\<close>

definition scenario_params :: BeeHazardParams where
  "scenario_params =
     \<lparr> lc50_pm25_ug_m3 = 12, lc50_nox_ppb = 100, lc50_o3_ppb = 70,
       lc50_voc_ug_m3 = 500,
       w_pm25 = 0.4, w_nox = 0.2, w_o3 = 0.2, w_voc = 0.2,
       pm25_eq_viability_ug_m3 = 8.5 \<rparr>"

definition scenario_guard :: "Polytope \<Rightarrow> Polytope \<Rightarrow> BeePolytopeGuard" where
  "scenario_guard F R =
     \<lparr> params = scenario_params, foragePoly = F, retreatPoly = R,
       rBeeSoftLimit = 0.6, rBeeHardLimit = 1 \<rparr>"

definition scenario_state :: State5D where
  "scenario_state =
     \<lparr> pm25_ug_m3 = 5, nox_ppb = 20, o3_ppb = 10, temp_C = 25, floral_m2_ha = 10 \<rparr>"

definition pm_cap :: "real \<Rightarrow> Polytope" where
  "pm_cap u = \<lparr> A = [Array5 1 0 0 0 0], b = [u] \<rparr>"

definition no_constraints :: Polytope where
  "no_constraints = \<lparr> A = [], b = [] \<rparr>"

text \<open>A configuration whose four thresholds are all zero or negative.\<close>

definition degenerate_guard :: BeePolytopeGuard where
  "degenerate_guard =
     \<lparr> params = scenario_params
         \<lparr> lc50_pm25_ug_m3 := 0, lc50_nox_ppb := - 1,
           lc50_o3_ppb := 0, lc50_voc_ug_m3 := - 5 \<rparr>,
       foragePoly = no_constraints, retreatPoly = no_constraints,
       rBeeSoftLimit = 0.6, rBeeHardLimit = 1 \<rparr>"





section \<open>Properties of computeHazard\<close>

text \<open>
  C10. The result of \<open>computeHazard\<close> does not depend on the temperature or the
  floral-density field of the state: changing \<open>temp_C\<close> and \<open>floral_m2_ha\<close> to any
  values, with the other readings, the organic concentration and the
  configuration unchanged, gives the identical result (risk index,
  equivalent-concentration index and viability flag).
\<close>

theorem computeHazard_ignores_temp_floral:
  "computeHazard g (s\<lparr>temp_C := t, floral_m2_ha := f\<rparr>) voc = computeHazard g s voc"
  by (simp add: computeHazard_def r_pm_def r_nox_def r_o3_def)



text \<open>
  C6. For each of the four pollutant channels (particulate, gas-1, gas-2,
  organic): if the configured threshold of the channel is zero or negative, the
  ratio of the channel is exactly 0 whatever the reading is, and the composite
  risk index is the weighted sum of the other three ratios, so the channel
  contributes exactly 0 to it.
\<close>

theorem nonpositive_threshold_contributes_zero:
  "(lc50_pm25_ug_m3 (params g) \<le> 0 \<longrightarrow>
      r_pm g s = 0 \<and>
      r_bee (computeHazard g s voc) =
        w_nox (params g) * r_nox g s + w_o3 (params g) * r_o3 g s +
        w_voc (params g) * r_voc g voc) \<and>
   (lc50_nox_ppb (params g) \<le> 0 \<longrightarrow>
      r_nox g s = 0 \<and>
      r_bee (computeHazard g s voc) =
        w_pm25 (params g) * r_pm g s + w_o3 (params g) * r_o3 g s +
        w_voc (params g) * r_voc g voc) \<and>
   (lc50_o3_ppb (params g) \<le> 0 \<longrightarrow>
      r_o3 g s = 0 \<and>
      r_bee (computeHazard g s voc) =
        w_pm25 (params g) * r_pm g s + w_nox (params g) * r_nox g s +
        w_voc (params g) * r_voc g voc) \<and>
   (lc50_voc_ug_m3 (params g) \<le> 0 \<longrightarrow>
      r_voc g voc = 0 \<and>
      r_bee (computeHazard g s voc) =
        w_pm25 (params g) * r_pm g s + w_nox (params g) * r_nox g s +
        w_o3 (params g) * r_o3 g s)"
proof (intro conjI impI)
  assume "lc50_pm25_ug_m3 (params g) \<le> 0"
  then show pm: "r_pm g s = 0" by (simp add: r_pm_def)
  show "r_bee (computeHazard g s voc) =
        w_nox (params g) * r_nox g s + w_o3 (params g) * r_o3 g s +
        w_voc (params g) * r_voc g voc"
    by (simp add: computeHazard_def Let_def pm)
next
  assume "lc50_nox_ppb (params g) \<le> 0"
  then show nox: "r_nox g s = 0" by (simp add: r_nox_def)
  show "r_bee (computeHazard g s voc) =
        w_pm25 (params g) * r_pm g s + w_o3 (params g) * r_o3 g s +
        w_voc (params g) * r_voc g voc"
    by (simp add: computeHazard_def Let_def nox)
next
  assume "lc50_o3_ppb (params g) \<le> 0"
  then show o3: "r_o3 g s = 0" by (simp add: r_o3_def)
  show "r_bee (computeHazard g s voc) =
        w_pm25 (params g) * r_pm g s + w_nox (params g) * r_nox g s +
        w_voc (params g) * r_voc g voc"
    by (simp add: computeHazard_def Let_def o3)
next
  assume "lc50_voc_ug_m3 (params g) \<le> 0"
  then show voc: "r_voc g voc = 0" by (simp add: r_voc_def)
  show "r_bee (computeHazard g s voc) =
        w_pm25 (params g) * r_pm g s + w_nox (params g) * r_nox g s +
        w_o3 (params g) * r_o3 g s"
    by (simp add: computeHazard_def Let_def voc)
qed

theorem nonpositive_threshold_contributes_zero_witness:
  "lc50_pm25_ug_m3 (params degenerate_guard) \<le> 0 \<and>
   lc50_nox_ppb (params degenerate_guard) \<le> 0 \<and>
   lc50_o3_ppb (params degenerate_guard) \<le> 0 \<and>
   lc50_voc_ug_m3 (params degenerate_guard) \<le> 0 \<and>
   r_pm degenerate_guard scenario_state = 0 \<and>
   r_nox degenerate_guard scenario_state = 0 \<and>
   r_o3 degenerate_guard scenario_state = 0 \<and>
   r_voc degenerate_guard 50 = 0 \<and>
   r_bee (computeHazard degenerate_guard scenario_state 50) = 0"
  using nonpositive_threshold_contributes_zero [of degenerate_guard scenario_state 50]
  by (simp add: degenerate_guard_def scenario_params_def)

text \<open>
  C8. When the four mixture weights are non-negative, the composite risk index
  computed by \<open>computeHazard\<close> is monotone non-decreasing in each single
  reading (particulate, gas-1, gas-2, organic), the other readings and the
  configuration being held fixed.
\<close>

theorem r_bee_monotone:
  assumes "0 \<le> w_pm25 (params g)" and "0 \<le> w_nox (params g)"
      and "0 \<le> w_o3 (params g)" and "0 \<le> w_voc (params g)"
  shows "(x \<le> y \<longrightarrow>
            r_bee (computeHazard g (s\<lparr>pm25_ug_m3 := x\<rparr>) voc)
              \<le> r_bee (computeHazard g (s\<lparr>pm25_ug_m3 := y\<rparr>) voc)) \<and>
         (x \<le> y \<longrightarrow>
            r_bee (computeHazard g (s\<lparr>nox_ppb := x\<rparr>) voc)
              \<le> r_bee (computeHazard g (s\<lparr>nox_ppb := y\<rparr>) voc)) \<and>
         (x \<le> y \<longrightarrow>
            r_bee (computeHazard g (s\<lparr>o3_ppb := x\<rparr>) voc)
              \<le> r_bee (computeHazard g (s\<lparr>o3_ppb := y\<rparr>) voc)) \<and>
         (x \<le> y \<longrightarrow>
            r_bee (computeHazard g s x) \<le> r_bee (computeHazard g s y))"
proof -
  have ratio: "w * (if 0 < t then x / t else 0) \<le> w * (if 0 < t then y / t else 0)"
    if "0 \<le> w" and "x \<le> y" for w t :: real
    using that by (simp add: mult_left_mono divide_right_mono)
  show ?thesis
    using assms
    by (auto simp: computeHazard_def Let_def r_pm_def r_nox_def r_o3_def r_voc_def
        intro!: ratio add_mono mult_left_mono divide_right_mono)
qed

theorem r_bee_monotone_witness:
  "r_bee (computeHazard (scenario_guard no_constraints no_constraints)
            (scenario_state\<lparr>pm25_ug_m3 := 5\<rparr>) 50)
     \<le> r_bee (computeHazard (scenario_guard no_constraints no_constraints)
            (scenario_state\<lparr>pm25_ug_m3 := 6\<rparr>) 50) \<and>
   r_bee (computeHazard (scenario_guard no_constraints no_constraints)
            (scenario_state\<lparr>nox_ppb := 5\<rparr>) 50)
     \<le> r_bee (computeHazard (scenario_guard no_constraints no_constraints)
            (scenario_state\<lparr>nox_ppb := 6\<rparr>) 50) \<and>
   r_bee (computeHazard (scenario_guard no_constraints no_constraints)
            (scenario_state\<lparr>o3_ppb := 5\<rparr>) 50)
     \<le> r_bee (computeHazard (scenario_guard no_constraints no_constraints)
            (scenario_state\<lparr>o3_ppb := 6\<rparr>) 50) \<and>
   r_bee (computeHazard (scenario_guard no_constraints no_constraints) scenario_state 5)
     \<le> r_bee (computeHazard (scenario_guard no_constraints no_constraints) scenario_state 6)"
proof -
  have w: "0 \<le> w_pm25 (params (scenario_guard no_constraints no_constraints))"
    "0 \<le> w_nox (params (scenario_guard no_constraints no_constraints))"
    "0 \<le> w_o3 (params (scenario_guard no_constraints no_constraints))"
    "0 \<le> w_voc (params (scenario_guard no_constraints no_constraints))"
    by (simp_all add: scenario_guard_def scenario_params_def)
  have le: "(5::real) \<le> 6" by simp
  show ?thesis
    using r_bee_monotone [OF w, of 5 6 scenario_state 50] le by blast
qed

section \<open>Properties of inPolytope and classifyRegion\<close>

lemma dot5_unfolded:
  "dot5 (Array5 a0 a1 a2 a3 a4) (Array5 x0 x1 x2 x3 x4) =
     a0 * x0 + a1 * x1 + a2 * x2 + a3 * x3 + a4 * x4"
  by (simp add: dot5_def at5_def numeral_eq_Suc upt_rec [of 0] upt_rec [of "Suc _"])

lemma inPolytope_loop_in_range:
  "\<forall>i\<in>set js. i < length (b P) \<Longrightarrow>
   inPolytope_loop P x js = Inr (\<forall>i\<in>set js. \<not> dot5 (A P ! i) x > b P ! i + tol)"
  by (induction js) auto

lemma inPolytope_returns:
  assumes "wf_polytope P"
  shows "\<exists>m. inPolytope P s = Inr m"
proof -
  have "\<forall>i\<in>set [0..<length (A P)]. i < length (b P)"
    using assms by (auto simp: wf_polytope_def)
  from inPolytope_loop_in_range [OF this] show ?thesis
    by (simp add: inPolytope_def)
qed

lemma inPolytope_no_rows: "A P = [] \<Longrightarrow> inPolytope P s = Inr True"
  by (simp add: inPolytope_def)

lemma classifyRegion_returns:
  assumes "wf_polytope (foragePoly g)" and "wf_polytope (retreatPoly g)"
  shows "\<exists>rc. classifyRegion g s = Inr rc"
proof -
  obtain f r where "inPolytope (foragePoly g) s = Inr f" "inPolytope (retreatPoly g) s = Inr r"
    using inPolytope_returns [OF assms(1)] inPolytope_returns [OF assms(2)] by blast
  then show ?thesis by (simp add: classifyRegion_def)
qed

lemma inPolytope_pm_cap:
  "inPolytope (pm_cap u) s = Inr (pm25_ug_m3 s \<le> u + 1 / 10 ^ 9)"
  by (simp add: inPolytope_def pm_cap_def dot5_unfolded tol_def not_less)

lemma wf_pm_cap: "wf_polytope (pm_cap u)"
  by (simp add: wf_polytope_def pm_cap_def)

subsection \<open>The parametric classifier\<close>




text \<open>With exact real arithmetic the parametric classifier is the first embedding.\<close>

lemma dot5_d_exact: "dot5_d exact (array5_d_of row) (array5_d_of x) = dot5 row x"
  by (cases row; cases x)
    (simp add: dot5_d_def dot5_def at5_d_def at5_def array5_d_of_def exact_def
      numeral_eq_Suc upt_rec [of 0] upt_rec [of "Suc _"])

lemma point_d_exact:
  "point_d (State5D_d_of s) =
     array5_d_of (Array5 (pm25_ug_m3 s) (nox_ppb s) (o3_ppb s) (temp_C s) (floral_m2_ha s))"
  by (simp add: point_d_def State5D_d_of_def array5_d_of_def)

lemma inPolytope_loop_d_exact:
  "\<forall>i\<in>set js. i < length (A P) \<Longrightarrow>
   inPolytope_loop_d exact (Polytope_d_of P) (array5_d_of x) js = inPolytope_loop P x js"
proof (induction js)
  case Nil
  show ?case by simp
next
  case (Cons i js)
  then have i: "i < length (A P)" by simp
  have "A_d (Polytope_d_of P) ! i = array5_d_of (A P ! i)"
    using i by (simp add: Polytope_d_of_def)
  moreover have "b_d (Polytope_d_of P) = b P" by (simp add: Polytope_d_of_def)
  moreover have "gt_op exact = (\<lambda>x y. x > y)" "add_op exact = (+)" "lit_tol exact = tol"
    by (simp_all add: exact_def tol_def)
  ultimately show ?case using Cons by (simp add: dot5_d_exact)
qed

lemma inPolytope_d_exact:
  "inPolytope_d exact (Polytope_d_of P) (State5D_d_of s) = inPolytope P s"
proof -
  have "length (A_d (Polytope_d_of P)) = length (A P)" by (simp add: Polytope_d_of_def)
  moreover have "\<forall>i\<in>set [0..<length (A P)]. i < length (A P)" by simp
  ultimately show ?thesis
    by (simp add: inPolytope_d_def inPolytope_def point_d_exact inPolytope_loop_d_exact
        del: set_upt)
qed

lemma classifyRegion_d_exact:
  "classifyRegion_d exact (BeePolytopeGuard_d_of g) (State5D_d_of s) = classifyRegion g s"
proof -
  have polys: "foragePoly_d (BeePolytopeGuard_d_of g) = Polytope_d_of (foragePoly g)"
    "retreatPoly_d (BeePolytopeGuard_d_of g) = Polytope_d_of (retreatPoly g)"
    by (simp_all add: BeePolytopeGuard_d_of_def)
  show ?thesis
    unfolding classifyRegion_d_def classifyRegion_def polys inPolytope_d_exact
    by (rule refl)
qed

text \<open>
  Where neither side of the comparison is NaN, a row is violated exactly when
  \<open>row_i \<cdot> x \<le> bound_i + 1e-9\<close> fails, and the fold of the code is the plain sum.
\<close>

lemma dgt_Num_iff_not_dle: "dgt (Num x) (Num y) \<longleftrightarrow> \<not> dle (Num x) (Num y)"
  by auto

lemma with_nan_ops:
  "lit_zero with_nan = Num 0" "lit_tol with_nan = Num (1 / 10 ^ 9)"
  "add_op with_nan = dadd" "mul_op with_nan = dmul"
  "gt_op with_nan = dgt" "le_op with_nan = dle"
  by (simp_all add: with_nan_def)

lemma dot5_d_with_nan_is_spec_dot: "dot5_d with_nan row x = spec_dot with_nan row x"
proof -
  have z: "dadd (Num 0) v = v" for v by (cases v) simp_all
  show ?thesis
    by (cases row; cases x)
      (simp add: dot5_d_def spec_dot_def at5_d_def with_nan_ops z
        numeral_eq_Suc upt_rec [of 0] upt_rec [of "Suc _"])
qed

lemma passes_is_spec_member_without_nan:
  assumes "\<forall>i<length (A_d P).
             spec_dot with_nan (A_d P ! i) (point_d s) \<noteq> NaN \<and>
             dadd (b_d P ! i) (lit_tol with_nan) \<noteq> NaN"
  shows "passes with_nan P s \<longleftrightarrow> spec_member with_nan P s"
proof -
  have "row_violated with_nan P s i \<longleftrightarrow>
          \<not> dle (spec_dot with_nan (A_d P ! i) (point_d s))
                 (dadd (b_d P ! i) (lit_tol with_nan))"
    if "i < length (A_d P)" for i
  proof -
    from assms that
    have "spec_dot with_nan (A_d P ! i) (point_d s) \<noteq> NaN"
      and "dadd (b_d P ! i) (lit_tol with_nan) \<noteq> NaN"
      by simp_all
    then obtain d c where "spec_dot with_nan (A_d P ! i) (point_d s) = Num d"
      and "dadd (b_d P ! i) (lit_tol with_nan) = Num c"
      by (cases "spec_dot with_nan (A_d P ! i) (point_d s)";
          cases "dadd (b_d P ! i) (lit_tol with_nan)") simp_all
    then show ?thesis
      by (simp add: row_violated_def dot5_d_with_nan_is_spec_dot with_nan_ops(3,5) not_le)
  qed
  then show ?thesis
    by (simp add: passes_def spec_member_def with_nan_ops(3,6))
qed









text \<open>
  C5, as the code has it. A polytope with zero constraints contains every
  point. If it is the forage polytope, \<open>classifyRegion\<close> returns forage-safe
  for every point. If it is the retreat polytope, \<open>classifyRegion\<close> never
  returns forbidden, and returns retreat-only for exactly the points that the
  forage test rejects: a point of the forage polytope stays forage-safe,
  because forage is checked first.
\<close>

theorem zero_constraints_label:
  "(A (foragePoly g) = [] \<longrightarrow>
      inPolytope (foragePoly g) s = Inr True \<and>
      classifyRegion g s = Inr FORAGE_SAFE) \<and>
   (A (retreatPoly g) = [] \<longrightarrow>
      inPolytope (retreatPoly g) s = Inr True \<and>
      classifyRegion g s \<noteq> Inr FORBIDDEN \<and>
      (inPolytope (foragePoly g) s = Inr False \<longrightarrow>
         classifyRegion g s = Inr RETREAT_ONLY) \<and>
      (inPolytope (foragePoly g) s = Inr True \<longrightarrow>
         classifyRegion g s = Inr FORAGE_SAFE))"
  by (auto simp: classifyRegion_def inPolytope_no_rows split: sum.splits)

theorem zero_constraints_label_witness:
  "A (foragePoly (scenario_guard no_constraints (pm_cap 4))) = [] \<and>
   classifyRegion (scenario_guard no_constraints (pm_cap 4)) scenario_state = Inr FORAGE_SAFE \<and>
   A (retreatPoly (scenario_guard (pm_cap 4) no_constraints)) = [] \<and>
   inPolytope (foragePoly (scenario_guard (pm_cap 4) no_constraints)) scenario_state = Inr False \<and>
   classifyRegion (scenario_guard (pm_cap 4) no_constraints) scenario_state = Inr RETREAT_ONLY"
proof -
  have e1: "A (foragePoly (scenario_guard no_constraints (pm_cap 4))) = []"
    and e2: "A (retreatPoly (scenario_guard (pm_cap 4) no_constraints)) = []"
    by (simp_all add: scenario_guard_def no_constraints_def)
  have "inPolytope (pm_cap 4) scenario_state = Inr False"
    by (simp add: inPolytope_pm_cap scenario_state_def)
  then have out: "inPolytope (foragePoly (scenario_guard (pm_cap 4) no_constraints))
      scenario_state = Inr False"
    by (simp add: scenario_guard_def)
  show ?thesis
    using zero_constraints_label [of "scenario_guard no_constraints (pm_cap 4)" scenario_state]
      zero_constraints_label [of "scenario_guard (pm_cap 4) no_constraints" scenario_state]
      e1 e2 out
    by simp
qed

text \<open>
  C5 as stated fails: with a retreat polytope of zero constraints and a point
  inside the forage polytope (\<open>pm25 = 5 \<le> 5\<close>), the label is forage-safe, not
  retreat-only.
\<close>

theorem zero_constraints_retreat_counterexample:
  "A (retreatPoly (scenario_guard (pm_cap 5) no_constraints)) = [] \<and>
   classifyRegion (scenario_guard (pm_cap 5) no_constraints) scenario_state = Inr FORAGE_SAFE \<and>
   classifyRegion (scenario_guard (pm_cap 5) no_constraints) scenario_state \<noteq> Inr RETREAT_ONLY"
proof -
  have "inPolytope (pm_cap 5) scenario_state = Inr True"
    by (simp add: inPolytope_pm_cap scenario_state_def)
  then show ?thesis
    by (simp add: classifyRegion_def scenario_guard_def no_constraints_def)
qed

section \<open>Properties of computeActuation\<close>

lemma computeActuation_at_region:
  assumes "classifyRegion g s = Inr rc"
  shows "computeActuation g s voc =
     Inr (if rc = FORBIDDEN \<or> rBeeHardLimit g \<le> r_bee (computeHazard g s voc)
          then \<lparr> region = rc, duty_scale = Some 0, allow_foraging = False \<rparr>
          else if rc = RETREAT_ONLY \<or> rBeeSoftLimit g < r_bee (computeHazard g s voc)
          then \<lparr> region = rc,
                 duty_scale =
                   map_option (\<lambda>a. a * 0.5)
                     (map_option (\<lambda>q. max 0 (1 - q))
                        (ddiv (r_bee (computeHazard g s voc)) (rBeeHardLimit g))),
                 allow_foraging = False \<rparr>
          else \<lparr> region = rc, duty_scale = Some 1, allow_foraging = True \<rparr>)"
  by (simp add: computeActuation_def Let_def assms)

lemma computeActuation_returns:
  assumes "wf_polytope (foragePoly g)" and "wf_polytope (retreatPoly g)"
  shows "\<exists>lim. computeActuation g s voc = Inr lim"
proof -
  obtain rc where "classifyRegion g s = Inr rc"
    using classifyRegion_returns [OF assms] by blast
  then show ?thesis by (simp add: computeActuation_at_region)
qed

lemma classify_pm_cap:
  "classifyRegion (scenario_guard (pm_cap u) (pm_cap v)) s =
     Inr (if pm25_ug_m3 s \<le> u + 1 / 10 ^ 9 then FORAGE_SAFE
          else if pm25_ug_m3 s \<le> v + 1 / 10 ^ 9 then RETREAT_ONLY else FORBIDDEN)"
  by (simp add: classifyRegion_def scenario_guard_def inPolytope_pm_cap)

lemma throttled_duty_bounds:
  fixes r h :: real
  assumes "0 \<le> r" and "r < h"
  shows "0 \<le> max 0 (1 - r / h) * 0.5" and "max 0 (1 - r / h) * 0.5 \<le> 1 / 2"
proof -
  have h: "0 < h" using assms by linarith
  then have "0 \<le> r / h" using assms(1) by simp
  then have "max 0 (1 - r / h) \<le> 1" by simp
  then show "max 0 (1 - r / h) * 0.5 \<le> 1 / 2" by simp
  show "0 \<le> max 0 (1 - r / h) * 0.5" by simp
qed

text \<open>
  Where the composite risk index is non-negative, the duty scale is a real
  number of \<open>[0, 1]\<close>, and of \<open>[0, 1/2]\<close> in the throttled tier.
\<close>

lemma throttled_duty_le_half_when_risk_nonneg:
  assumes "classifyRegion g s = Inr rc"
      and "\<not> (rc = FORBIDDEN \<or> rBeeHardLimit g \<le> r_bee (computeHazard g s voc))"
      and "rc = RETREAT_ONLY \<or> rBeeSoftLimit g < r_bee (computeHazard g s voc)"
      and "0 \<le> r_bee (computeHazard g s voc)"
  shows "\<exists>lim d. computeActuation g s voc = Inr lim \<and> duty_scale lim = Some d \<and>
           0 \<le> d \<and> d \<le> 1 / 2"
proof -
  let ?r = "r_bee (computeHazard g s voc)"
  let ?d = "max 0 (1 - ?r / rBeeHardLimit g) * 0.5"
  have lt: "?r < rBeeHardLimit g" using assms(2) by simp
  then have "rBeeHardLimit g \<noteq> 0" using assms(4) by simp
  then have "computeActuation g s voc =
      Inr \<lparr> region = rc, duty_scale = Some ?d, allow_foraging = False \<rparr>"
    using assms(2,3)
    by (simp add: computeActuation_at_region [OF assms(1)] ddiv_def)
  moreover have "duty_scale \<lparr> region = rc, duty_scale = Some ?d, allow_foraging = False \<rparr>
      = Some ?d" by simp
  ultimately show ?thesis
    using throttled_duty_bounds [OF assms(4) lt] by blast
qed

lemma duty_scale_range_when_risk_nonneg:
  assumes "classifyRegion g s = Inr rc"
      and "0 \<le> r_bee (computeHazard g s voc)"
  shows "\<exists>lim d. computeActuation g s voc = Inr lim \<and> duty_scale lim = Some d \<and>
           0 \<le> d \<and> d \<le> 1"
proof -
  let ?r = "r_bee (computeHazard g s voc)"
  consider (stop) "rc = FORBIDDEN \<or> rBeeHardLimit g \<le> ?r"
    | (throttled) "\<not> (rc = FORBIDDEN \<or> rBeeHardLimit g \<le> ?r)"
        "rc = RETREAT_ONLY \<or> rBeeSoftLimit g < ?r"
    | (full) "\<not> (rc = FORBIDDEN \<or> rBeeHardLimit g \<le> ?r)"
        "\<not> (rc = RETREAT_ONLY \<or> rBeeSoftLimit g < ?r)"
    by blast
  then show ?thesis
  proof cases
    case stop
    then show ?thesis by (simp add: computeActuation_at_region [OF assms(1)])
  next
    case throttled
    from throttled_duty_le_half_when_risk_nonneg [OF assms(1) throttled assms(2)]
    obtain lim d where "computeActuation g s voc = Inr lim" "duty_scale lim = Some d"
      "0 \<le> d" "d \<le> 1 / 2" by blast
    moreover from \<open>d \<le> 1 / 2\<close> have "d \<le> 1" by simp
    ultimately show ?thesis by blast
  next
    case full
    then show ?thesis by (simp add: computeActuation_at_region [OF assms(1)])
  qed
qed

lemma r_bee_nonneg:
  assumes "0 \<le> w_pm25 (params g)" and "0 \<le> w_nox (params g)"
      and "0 \<le> w_o3 (params g)" and "0 \<le> w_voc (params g)"
      and "0 \<le> pm25_ug_m3 s" and "0 \<le> nox_ppb s" and "0 \<le> o3_ppb s" and "0 \<le> voc"
  shows "0 \<le> r_bee (computeHazard g s voc)"
  using assms
  by (simp add: computeHazard_def Let_def r_pm_def r_nox_def r_o3_def r_voc_def)

lemma scenario_limits:
  "rBeeHardLimit (scenario_guard F R) = 1" "rBeeSoftLimit (scenario_guard F R) = 6 / 10"
  by (simp_all add: scenario_guard_def)

lemma scenario_r_bee:
  "r_bee (computeHazard (scenario_guard F R) s voc) =
     4 / 10 * (pm25_ug_m3 s / 12) + 2 / 10 * (nox_ppb s / 100) +
     2 / 10 * (o3_ppb s / 70) + 2 / 10 * (voc / 500)"
  by (simp add: computeHazard_def Let_def r_pm_def r_nox_def r_o3_def r_voc_def
      scenario_guard_def scenario_params_def)

text \<open>
  C1. Whatever the state and the organic concentration: if the classified
  region is forbidden, or the composite risk index is at least the hard risk
  limit, \<open>computeActuation\<close> returns duty scale 0 and no foraging. Either
  condition alone is enough: forbidden whatever the risk, and risk at or above
  the hard limit whatever the region, forage-safe included.
\<close>

theorem hard_stop:
  assumes "classifyRegion g s = Inr rc"
      and "rc = FORBIDDEN \<or> rBeeHardLimit g \<le> r_bee (computeHazard g s voc)"
  shows "computeActuation g s voc =
           Inr \<lparr> region = rc, duty_scale = Some 0, allow_foraging = False \<rparr>"
  using assms(2) by (simp add: computeActuation_at_region [OF assms(1)])

text \<open>
  The witness takes both routes: a forbidden point with risk \<open>134/525\<close> below
  the hard limit 1, and a forage-safe point whose risk \<open>2213/525\<close> is above it.
\<close>

theorem hard_stop_witness:
  "classifyRegion (scenario_guard (pm_cap 4) (pm_cap 4)) scenario_state = Inr FORBIDDEN \<and>
   r_bee (computeHazard (scenario_guard (pm_cap 4) (pm_cap 4)) scenario_state 50) = 134 / 525 \<and>
   computeActuation (scenario_guard (pm_cap 4) (pm_cap 4)) scenario_state 50 =
     Inr \<lparr> region = FORBIDDEN, duty_scale = Some 0, allow_foraging = False \<rparr> \<and>
   classifyRegion (scenario_guard (pm_cap 5) (pm_cap 5))
     (scenario_state\<lparr>nox_ppb := 2000\<rparr>) = Inr FORAGE_SAFE \<and>
   r_bee (computeHazard (scenario_guard (pm_cap 5) (pm_cap 5))
     (scenario_state\<lparr>nox_ppb := 2000\<rparr>) 50) = 2213 / 525 \<and>
   computeActuation (scenario_guard (pm_cap 5) (pm_cap 5))
     (scenario_state\<lparr>nox_ppb := 2000\<rparr>) 50 =
     Inr \<lparr> region = FORAGE_SAFE, duty_scale = Some 0, allow_foraging = False \<rparr>"
proof -
  let ?g1 = "scenario_guard (pm_cap 4) (pm_cap 4)"
  let ?g2 = "scenario_guard (pm_cap 5) (pm_cap 5)"
  let ?s2 = "scenario_state\<lparr>nox_ppb := 2000\<rparr>"
  have c1: "classifyRegion ?g1 scenario_state = Inr FORBIDDEN"
    by (simp add: classify_pm_cap scenario_state_def)
  have r1: "r_bee (computeHazard ?g1 scenario_state 50) = 134 / 525"
    by (simp add: scenario_r_bee scenario_state_def)
  have c2: "classifyRegion ?g2 ?s2 = Inr FORAGE_SAFE"
    by (simp add: classify_pm_cap scenario_state_def)
  have r2: "r_bee (computeHazard ?g2 ?s2 50) = 2213 / 525"
    by (simp add: scenario_r_bee scenario_state_def)
  have h2: "FORAGE_SAFE = FORBIDDEN \<or> rBeeHardLimit ?g2 \<le> r_bee (computeHazard ?g2 ?s2 50)"
    by (simp add: r2 scenario_limits)
  show ?thesis
    using hard_stop [OF c1, of 50] hard_stop [OF c2 h2] c1 r1 c2 r2 by simp
qed

text \<open>
  C9. Whatever the state and the organic concentration, the directive returned
  by \<open>computeActuation\<close> carries the classified region and permits foraging
  if and only if the region is forage-safe, the risk index is not at or above
  the hard limit, and the risk index is not above the soft limit; and whenever
  foraging is permitted the duty scale is exactly 1.
\<close>

theorem allow_foraging_iff:
  assumes "classifyRegion g s = Inr rc"
  shows "\<exists>lim. computeActuation g s voc = Inr lim \<and> region lim = rc \<and>
           (allow_foraging lim \<longleftrightarrow>
              rc = FORAGE_SAFE \<and>
              \<not> rBeeHardLimit g \<le> r_bee (computeHazard g s voc) \<and>
              \<not> rBeeSoftLimit g < r_bee (computeHazard g s voc)) \<and>
           (allow_foraging lim \<longrightarrow> duty_scale lim = Some 1)"
  by (cases rc) (auto simp: computeActuation_at_region [OF assms])

text \<open>
  The witness is the end-to-end scenario of the specification: no forage
  constraints, risk \<open>134/525\<close> (about 0.2552), full operation.
\<close>

theorem allow_foraging_iff_witness:
  "classifyRegion (scenario_guard no_constraints (pm_cap 5)) scenario_state = Inr FORAGE_SAFE \<and>
   r_bee (computeHazard (scenario_guard no_constraints (pm_cap 5)) scenario_state 50) = 134 / 525 \<and>
   (\<exists>lim. computeActuation (scenario_guard no_constraints (pm_cap 5)) scenario_state 50 = Inr lim \<and>
      region lim = FORAGE_SAFE \<and> allow_foraging lim \<and> duty_scale lim = Some 1)"
proof -
  let ?g = "scenario_guard no_constraints (pm_cap 5)"
  have c: "classifyRegion ?g scenario_state = Inr FORAGE_SAFE"
    by (simp add: classifyRegion_def inPolytope_no_rows scenario_guard_def no_constraints_def)
  have r: "r_bee (computeHazard ?g scenario_state 50) = 134 / 525"
    by (simp add: scenario_r_bee scenario_state_def)
  show ?thesis
    using allow_foraging_iff [OF c, of 50] c r by (auto simp: scenario_limits)
qed

text \<open>
  C2 asks for a duty scale in \<open>[0, 1]\<close> on every input, negative readings
  included. The code clamps \<open>1 - r_bee / rBeeHardLimit\<close> from below only: at
  the scenario configuration, a retreat-only point with the reading
  \<open>nox = -2000\<close> has risk \<open>-1987/525\<close> and \<open>computeActuation\<close> returns the
  duty scale \<open>1256/525\<close>, which is above 1.
\<close>

theorem duty_scale_above_one_at_negative_reading:
  "r_bee (computeHazard (scenario_guard (pm_cap 4) (pm_cap 5))
     (scenario_state\<lparr>nox_ppb := - 2000\<rparr>) 50) = - (1987 / 525) \<and>
   computeActuation (scenario_guard (pm_cap 4) (pm_cap 5))
     (scenario_state\<lparr>nox_ppb := - 2000\<rparr>) 50 =
     Inr \<lparr> region = RETREAT_ONLY, duty_scale = Some (1256 / 525), allow_foraging = False \<rparr> \<and>
   (1 :: real) < 1256 / 525"
proof -
  let ?g = "scenario_guard (pm_cap 4) (pm_cap 5)"
  let ?s = "scenario_state\<lparr>nox_ppb := - 2000\<rparr>"
  have c: "classifyRegion ?g ?s = Inr RETREAT_ONLY"
    by (simp add: classify_pm_cap scenario_state_def)
  have r: "r_bee (computeHazard ?g ?s 50) = - (1987 / 525)"
    by (simp add: scenario_r_bee scenario_state_def)
  show ?thesis
    by (simp add: computeActuation_at_region [OF c] r scenario_limits ddiv_def)
qed

text \<open>
  C4 asks for a duty scale of at most 0.5 in the throttled tier for every
  risk index, values below zero included. At the scenario configuration, a
  retreat-only point with the reading \<open>nox = -200\<close> has risk \<open>-97/525\<close>, below
  the hard limit, so the throttled tier is reached, and \<open>computeActuation\<close>
  returns the duty scale \<open>311/525\<close>, which is above one half.
\<close>

theorem throttled_duty_above_half_at_negative_risk:
  "classifyRegion (scenario_guard (pm_cap 4) (pm_cap 5))
     (scenario_state\<lparr>nox_ppb := - 200\<rparr>) = Inr RETREAT_ONLY \<and>
   r_bee (computeHazard (scenario_guard (pm_cap 4) (pm_cap 5))
     (scenario_state\<lparr>nox_ppb := - 200\<rparr>) 50) = - (97 / 525) \<and>
   \<not> rBeeHardLimit (scenario_guard (pm_cap 4) (pm_cap 5)) \<le> - (97 / 525) \<and>
   computeActuation (scenario_guard (pm_cap 4) (pm_cap 5))
     (scenario_state\<lparr>nox_ppb := - 200\<rparr>) 50 =
     Inr \<lparr> region = RETREAT_ONLY, duty_scale = Some (311 / 525), allow_foraging = False \<rparr> \<and>
   (1 / 2 :: real) < 311 / 525"
proof -
  let ?g = "scenario_guard (pm_cap 4) (pm_cap 5)"
  let ?s = "scenario_state\<lparr>nox_ppb := - 200\<rparr>"
  have c: "classifyRegion ?g ?s = Inr RETREAT_ONLY"
    by (simp add: classify_pm_cap scenario_state_def)
  have r: "r_bee (computeHazard ?g ?s 50) = - (97 / 525)"
    by (simp add: scenario_r_bee scenario_state_def)
  show ?thesis
    by (simp add: computeActuation_at_region [OF c] c r scenario_limits ddiv_def)
qed

end
